theory Spec2Isabelle
  imports Main "HOL-Library.Multiset"
begin

section \<open>Python strings (Latin-1)\<close>

text \<open>
  Strings are \<^typ>\<open>string\<close>: a \<^typ>\<open>char\<close> is a code point from 0 to 255.
  The character classes are the ones Python has for these code points: the upper-case
  letters are A to Z and U+00C0 to U+00DE without the multiplication sign, the lower-case
  ones a to z, U+00DF to U+00FF without the division sign, the two ordinal indicators and
  the micro sign; no code point below 256 is title-case; lowering adds 32 to an
  upper-case letter.
\<close>

definition char_isupper :: "char \<Rightarrow> bool" where
  "char_isupper c =
     ((65 \<le> (of_char c :: nat) \<and> (of_char c :: nat) \<le> 90)
      \<or> (192 \<le> (of_char c :: nat) \<and> (of_char c :: nat) \<le> 214)
      \<or> (216 \<le> (of_char c :: nat) \<and> (of_char c :: nat) \<le> 222))"

definition char_islower :: "char \<Rightarrow> bool" where
  "char_islower c =
     ((97 \<le> (of_char c :: nat) \<and> (of_char c :: nat) \<le> 122)
      \<or> (of_char c :: nat) = 170 \<or> (of_char c :: nat) = 181 \<or> (of_char c :: nat) = 186
      \<or> (223 \<le> (of_char c :: nat) \<and> (of_char c :: nat) \<le> 246)
      \<or> (248 \<le> (of_char c :: nat) \<and> (of_char c :: nat) \<le> 255))"

definition char_lower :: "char \<Rightarrow> char" where
  "char_lower c = (if char_isupper c then char_of ((of_char c :: nat) + 32) else c)"

text \<open>The characters \<^verbatim>\<open>str.split()\<close> treats as separators: tab to carriage
  return, the four separator controls, the space, the next-line control U+0085 and the
  no-break space U+00A0.\<close>

definition char_isspace :: "char \<Rightarrow> bool" where
  "char_isspace c =
     ((9 \<le> (of_char c :: nat) \<and> (of_char c :: nat) \<le> 13)
      \<or> (28 \<le> (of_char c :: nat) \<and> (of_char c :: nat) \<le> 32)
      \<or> (of_char c :: nat) = 133 \<or> (of_char c :: nat) = 160)"

text \<open>\<^verbatim>\<open>s.isupper()\<close>: at least one upper-case character, and no lower-case
  one.\<close>

definition isupper :: "string \<Rightarrow> bool" where
  "isupper s = (list_ex char_isupper s \<and> list_all (\<lambda>c. \<not> char_islower c) s)"

text \<open>\<^verbatim>\<open>s.lower()\<close>.\<close>

definition lower :: "string \<Rightarrow> string" where
  "lower s = map char_lower s"

text \<open>\<^verbatim>\<open>s.split()\<close>: the maximal runs of non-whitespace characters, in order;
  the first argument is the run being read.\<close>

fun split_from :: "string \<Rightarrow> string \<Rightarrow> string list" where
  "split_from w [] = (if w = [] then [] else [w])"
| "split_from w (c # cs) =
     (if char_isspace c
      then (if w = [] then split_from [] cs else w # split_from [] cs)
      else split_from (w @ [c]) cs)"

definition split :: "string \<Rightarrow> string list" where
  "split s = split_from [] s"

text \<open>\<^verbatim>\<open>sep.join(xs)\<close>.\<close>

fun join :: "string \<Rightarrow> string list \<Rightarrow> string" where
  "join sep [] = []"
| "join sep [x] = x"
| "join sep (x # y # ys) = x @ sep @ join sep (y # ys)"

text \<open>The exceptions of the program that a claim depends on.\<close>

datatype exn = IndexError | ValueError | OperationalError

section \<open>Term extraction (medical.py)\<close>

text \<open>
  The output of the linguistic analyzer \<^verbatim>\<open>nlp(text)\<close>: the entities
  (\<^verbatim>\<open>ent.text\<close>, \<^verbatim>\<open>ent.label_\<close>) and the noun chunks
  (\<^verbatim>\<open>chunk.text\<close> and the texts of the chunk's tokens). The analyzer itself is
  an external library; \<^verbatim>\<open>extract_medical_keywords\<close> is modelled on its output.
\<close>

record ent =
  ent_text :: string
  ent_label :: string

record chunk =
  chunk_text :: string
  tokens :: "string list"

record doc =
  ents :: "ent list"
  noun_chunks :: "chunk list"

definition medical_words :: "string list" where
  "medical_words =
     [''pain'', ''ache'', ''discomfort'', ''swelling'', ''fever'',
      ''infection'', ''inflammation'', ''disease'', ''syndrome'',
      ''condition'', ''symptom'', ''treatment'']"

text \<open>\<^verbatim>\<open>ent.text[0].isupper()\<close>: indexing the empty string raises.\<close>

definition first_isupper :: "string \<Rightarrow> exn + bool" where
  "first_isupper s = (case s of [] \<Rightarrow> Inl IndexError | c # _ \<Rightarrow> Inr (isupper [c]))"

text \<open>The condition of the entity loop, with the short-circuit evaluation of
  \<^verbatim>\<open>and\<close> and \<^verbatim>\<open>or\<close>: the first character is read only when the two
  earlier disjuncts are false and the text has at most three words.\<close>

definition ent_condition :: "ent \<Rightarrow> exn + bool" where
  "ent_condition e =
     (if ent_label e \<in> set [''ORG'', ''GPE''] \<and> list_ex isupper (split (ent_text e))
      then Inr True
      else if ent_label e = ''CONDITION'' then Inr True
      else if length (split (ent_text e)) \<le> 3 then first_isupper (ent_text e)
      else Inr False)"

fun ents_loop :: "ent list \<Rightarrow> string list \<Rightarrow> exn + string list" where
  "ents_loop [] medical_entities = Inr medical_entities"
| "ents_loop (e # es) medical_entities =
     (case ent_condition e of
        Inl err \<Rightarrow> Inl err
      | Inr b \<Rightarrow>
          ents_loop es (if b then medical_entities @ [ent_text e] else medical_entities))"

definition chunk_condition :: "chunk \<Rightarrow> bool" where
  "chunk_condition ch = list_ex (\<lambda>token. lower token \<in> set medical_words) (tokens ch)"

fun chunks_loop :: "chunk list \<Rightarrow> string list \<Rightarrow> string list" where
  "chunks_loop [] medical_entities = medical_entities"
| "chunks_loop (ch # chs) medical_entities =
     chunks_loop chs
       (if chunk_condition ch then medical_entities @ [chunk_text ch] else medical_entities)"

text \<open>\<^verbatim>\<open>list(dict.fromkeys(xs))\<close>: the keys of an insertion-ordered dictionary;
  a key that is already present keeps its place.\<close>

fun fromkeys :: "'a list \<Rightarrow> 'a list \<Rightarrow> 'a list" where
  "fromkeys keys [] = keys"
| "fromkeys keys (x # xs) = fromkeys (if x \<in> set keys then keys else keys @ [x]) xs"

definition extract_medical_keywords :: "doc \<Rightarrow> exn + string list" where
  "extract_medical_keywords d =
     (case ents_loop (ents d) [] of
        Inl err \<Rightarrow> Inl err
      | Inr medical_entities \<Rightarrow>
          Inr (fromkeys [] (chunks_loop (noun_chunks d) medical_entities)))"

subsection \<open>The extraction as the specification words it\<close>

definition entity_kept :: "ent \<Rightarrow> bool" where
  "entity_kept e =
     ((ent_label e = ''ORG'' \<or> ent_label e = ''GPE'') \<and> (\<exists>w \<in> set (split (ent_text e)). isupper w)
      \<or> ent_label e = ''CONDITION''
      \<or> length (split (ent_text e)) \<le> 3
          \<and> (case ent_text e of [] \<Rightarrow> False | c # _ \<Rightarrow> char_isupper c))"

definition phrase_kept :: "chunk \<Rightarrow> bool" where
  "phrase_kept ch = (\<exists>t \<in> set (tokens ch). \<exists>w \<in> set medical_words. lower t = w)"

text \<open>Each element once, at the place of its first occurrence.\<close>

fun dedup_first :: "'a list \<Rightarrow> 'a list" where
  "dedup_first [] = []"
| "dedup_first (x # xs) = x # filter (\<lambda>y. y \<noteq> x) (dedup_first xs)"

definition extract_spec :: "doc \<Rightarrow> string list" where
  "extract_spec d =
     dedup_first (map ent_text (filter entity_kept (ents d))
                  @ map chunk_text (filter phrase_kept (noun_chunks d)))"

section \<open>Summary (medical.py)\<close>

definition generate_summary :: "string list \<Rightarrow> string" where
  "generate_summary keywords =
     (if keywords = [] then ''No specific medical terms were identified in the input.''
      else ''Based on the analysis, the key medical conditions and symptoms include: ''
           @ join '', '' keywords @ ''.'')"

section \<open>The database (medical3.py)\<close>

text \<open>
  The tables of \<^verbatim>\<open>medical_app.db\<close>, one record per row, in insertion order.
  \<^verbatim>\<open>medical3.py\<close> holds two table layouts. Its \<^verbatim>\<open>init_db\<close> (lines
  209 to 236) creates \<^verbatim>\<open>users(id, username, password)\<close> and
  \<^verbatim>\<open>analysis_history(id, user_id, analysis_date, medical_terms, summary,
  recommendations)\<close> only. The \<^verbatim>\<open>CREATE TABLE\<close> statements of lines 35 to 80
  (spliced into the first \<^verbatim>\<open>get_user_history\<close>) add the column
  \<^verbatim>\<open>users.role\<close>, the tables \<^verbatim>\<open>doctors\<close> and
  \<^verbatim>\<open>doctor_patient\<close>, and the columns \<^verbatim>\<open>doctor_id\<close>,
  \<^verbatim>\<open>status TEXT DEFAULT 'pending'\<close>, \<^verbatim>\<open>doctor_notes\<close> and
  \<^verbatim>\<open>last_modified\<close> of \<^verbatim>\<open>analysis_history\<close>. Every statement is
  \<^verbatim>\<open>CREATE TABLE IF NOT EXISTS\<close>, so the layout of an existing file stays as it
  is. A statement that names a table or a column the file does not have raises
  \<^verbatim>\<open>sqlite3.OperationalError\<close>, which no function of the program catches.
\<close>

datatype schema =
    NoTables  \<comment> \<open>a new database file\<close>
  | Legacy    \<comment> \<open>the tables \<^verbatim>\<open>init_db\<close> creates\<close>
  | Review    \<comment> \<open>the tables of lines 35 to 80\<close>

text \<open>A time (\<^verbatim>\<open>datetime.now()\<close>) is a number; the database compares the
  times as the numbers compare.\<close>

type_synonym timestamp = nat

record user_row =
  u_id :: nat
  u_username :: string
  u_password :: string
  u_role :: string

record doctor_row =
  d_id :: nat
  d_user_id :: nat
  d_full_name :: string
  d_specialization :: string

record doctor_patient_row =
  dp_doctor_id :: nat
  dp_patient_id :: nat
  dp_assignment_date :: timestamp

text \<open>A column that is NULL, or that the table does not have, is \<^const>\<open>None\<close>.\<close>

record analysis_row =
  a_id :: nat
  a_user_id :: nat
  a_analysis_date :: timestamp
  a_medical_terms :: string
  a_summary :: string
  a_recommendations :: string
  a_doctor_id :: "nat option"
  a_status :: "string option"
  a_doctor_notes :: "string option"
  a_last_modified :: "timestamp option"

record database =
  db_schema :: schema
  users :: "user_row list"
  doctors :: "doctor_row list"
  doctor_patient :: "doctor_patient_row list"
  analysis_history :: "analysis_row list"

definition new_file :: database where
  "new_file = \<lparr>db_schema = NoTables, users = [], doctors = [], doctor_patient = [],
               analysis_history = []\<rparr>"

text \<open>\<^verbatim>\<open>INTEGER PRIMARY KEY AUTOINCREMENT\<close>: one more than the largest id of the
  table (the program deletes no row).\<close>

definition fresh_rowid :: "nat list \<Rightarrow> nat" where
  "fresh_rowid ids = Suc (fold max ids 0)"

text \<open>Lines 209 to 236.\<close>

definition init_db :: "database \<Rightarrow> database" where
  "init_db db =
     (if db_schema db = NoTables
      then \<lparr>db_schema = Legacy, users = [], doctors = [], doctor_patient = [],
            analysis_history = []\<rparr>
      else db)"

subsection \<open>Accounts\<close>

text \<open>
  \<^verbatim>\<open>hash_password\<close> is \<^verbatim>\<open>hashlib.sha256(password.encode()).hexdigest()\<close>,
  a library function: the functions that call it take it as their first argument. The
  \<^verbatim>\<open>UNIQUE\<close> constraint on \<^verbatim>\<open>users.username\<close> raises the
  \<^verbatim>\<open>IntegrityError\<close> that \<^verbatim>\<open>create_user\<close> turns into \<^verbatim>\<open>None\<close>.
\<close>

definition create_user ::
  "(string \<Rightarrow> string) \<Rightarrow> database \<Rightarrow> string \<Rightarrow> string \<Rightarrow> string
   \<Rightarrow> exn + database \<times> nat option" where
  "create_user hash_password db username password role =
     (if db_schema db \<noteq> Review then Inl OperationalError
      else if username \<in> set (map u_username (users db)) then Inr (db, None)
      else
        let lastrowid = fresh_rowid (map u_id (users db))
        in Inr (db\<lparr>users := users db @
                  [\<lparr>u_id = lastrowid, u_username = username,
                    u_password = hash_password password, u_role = role\<rparr>]\<rparr>,
                Some lastrowid))"

text \<open>\<^verbatim>\<open>doctors.user_id\<close> is \<^verbatim>\<open>UNIQUE\<close>.\<close>

definition create_doctor ::
  "database \<Rightarrow> nat \<Rightarrow> string \<Rightarrow> string \<Rightarrow> exn + database \<times> bool" where
  "create_doctor db user_id full_name specialization =
     (if db_schema db \<noteq> Review then Inl OperationalError
      else if user_id \<in> set (map d_user_id (doctors db)) then Inr (db, False)
      else Inr (db\<lparr>doctors := doctors db @
                  [\<lparr>d_id = fresh_rowid (map d_id (doctors db)), d_user_id = user_id,
                    d_full_name = full_name, d_specialization = specialization\<rparr>]\<rparr>,
                True))"

text \<open>The dictionary \<^verbatim>\<open>{'id': ..., 'role': ...}\<close> that \<^verbatim>\<open>verify_user\<close>
  returns.\<close>

record login =
  login_id :: nat
  login_role :: string

definition verify_user ::
  "(string \<Rightarrow> string) \<Rightarrow> database \<Rightarrow> string \<Rightarrow> string \<Rightarrow> exn + login option" where
  "verify_user hash_password db username password =
     (if db_schema db \<noteq> Review then Inl OperationalError
      else
        (case find (\<lambda>r. u_username r = username) (users db) of
           None \<Rightarrow> Inr None
         | Some result \<Rightarrow>
             if u_password result = hash_password password
             then Inr (Some \<lparr>login_id = u_id result, login_role = u_role result\<rparr>)
             else Inr None))"

text \<open>The primary key of \<^verbatim>\<open>doctor_patient\<close> is the pair
  \<^verbatim>\<open>(doctor_id, patient_id)\<close>.\<close>

definition assign_doctor ::
  "database \<Rightarrow> timestamp \<Rightarrow> nat \<Rightarrow> nat \<Rightarrow> exn + database \<times> bool" where
  "assign_doctor db now doctor_id patient_id =
     (if db_schema db \<noteq> Review then Inl OperationalError
      else if (doctor_id, patient_id)
              \<in> set (map (\<lambda>dp. (dp_doctor_id dp, dp_patient_id dp)) (doctor_patient db))
      then Inr (db, False)
      else Inr (db\<lparr>doctor_patient := doctor_patient db @
                  [\<lparr>dp_doctor_id = doctor_id, dp_patient_id = patient_id,
                    dp_assignment_date = now\<rparr>]\<rparr>,
                True))"

definition get_doctor_patients :: "database \<Rightarrow> nat \<Rightarrow> exn + (nat \<times> string) list" where
  "get_doctor_patients db doctor_id =
     (if db_schema db \<noteq> Review then Inl OperationalError
      else Inr (concat (map (\<lambda>u.
                  map (\<lambda>dp. (u_id u, u_username u))
                    (filter (\<lambda>dp. u_id u = dp_patient_id dp \<and> dp_doctor_id dp = doctor_id)
                       (doctor_patient db)))
                (users db))))"

definition get_doctor_id :: "database \<Rightarrow> nat \<Rightarrow> exn + nat option" where
  "get_doctor_id db user_id =
     (if db_schema db \<noteq> Review then Inl OperationalError
      else Inr (map_option d_id (find (\<lambda>d. d_user_id d = user_id) (doctors db))))"

subsection \<open>Analysis records\<close>

text \<open>
  The file defines \<^verbatim>\<open>save_analysis\<close> twice. The definition of lines 189 to 199
  writes the status \<^verbatim>\<open>'pending'\<close>; it is \<open>save_analysis_1\<close> here. The definition
  of lines 470 to 479 writes no status, so the row takes the default of the column where
  the table has one; it comes later in the file, so it is the one the name
  \<^verbatim>\<open>save_analysis\<close> is bound to when the module has loaded.
\<close>

definition save_analysis_1 ::
  "database \<Rightarrow> timestamp \<Rightarrow> nat \<Rightarrow> string \<Rightarrow> string \<Rightarrow> string \<Rightarrow> exn + database" where
  "save_analysis_1 db now user_id medical_terms summary recommendations =
     (if db_schema db \<noteq> Review then Inl OperationalError
      else Inr (db\<lparr>analysis_history := analysis_history db @
                  [\<lparr>a_id = fresh_rowid (map a_id (analysis_history db)),
                    a_user_id = user_id, a_analysis_date = now,
                    a_medical_terms = medical_terms, a_summary = summary,
                    a_recommendations = recommendations, a_doctor_id = None,
                    a_status = Some ''pending'', a_doctor_notes = None,
                    a_last_modified = None\<rparr>]\<rparr>))"

definition save_analysis ::
  "database \<Rightarrow> timestamp \<Rightarrow> nat \<Rightarrow> string \<Rightarrow> string \<Rightarrow> string \<Rightarrow> exn + database" where
  "save_analysis db now user_id medical_terms summary recommendations =
     (if db_schema db = NoTables then Inl OperationalError
      else Inr (db\<lparr>analysis_history := analysis_history db @
                  [\<lparr>a_id = fresh_rowid (map a_id (analysis_history db)),
                    a_user_id = user_id, a_analysis_date = now,
                    a_medical_terms = medical_terms, a_summary = summary,
                    a_recommendations = recommendations, a_doctor_id = None,
                    a_status = (if db_schema db = Review then Some ''pending'' else None),
                    a_doctor_notes = None, a_last_modified = None\<rparr>]\<rparr>))"

text \<open>
  \<^verbatim>\<open>ORDER BY analysis_date DESC\<close>: the rows by decreasing date; rows with
  equal dates keep the order they have in the table, as the sorter of SQLite leaves them.
\<close>

definition order_by_date_desc :: "analysis_row list \<Rightarrow> analysis_row list" where
  "order_by_date_desc rows = rev (sort_key a_analysis_date (rev rows))"

text \<open>
  The file defines \<^verbatim>\<open>get_user_history\<close> twice as well. The definition of
  lines 481 to 492, which selects four columns, is the later one: it is what the name
  means for every caller, \<^verbatim>\<open>doctor_interface\<close> included, and it is the one
  modelled here. The definition that starts at line 17 is replaced by it before anything
  runs.
\<close>

definition get_user_history ::
  "database \<Rightarrow> nat \<Rightarrow> exn + (timestamp \<times> string \<times> string \<times> string) list" where
  "get_user_history db user_id =
     (if db_schema db = NoTables then Inl OperationalError
      else Inr (map (\<lambda>r. (a_analysis_date r, a_medical_terms r, a_summary r,
                            a_recommendations r))
                  (order_by_date_desc
                     (filter (\<lambda>r. a_user_id r = user_id) (analysis_history db)))))"

text \<open>Lines 313 to 322: one \<^verbatim>\<open>UPDATE ... WHERE id = ?\<close>.\<close>

definition update_analysis_status ::
  "database \<Rightarrow> timestamp \<Rightarrow> nat \<Rightarrow> string \<Rightarrow> string \<Rightarrow> exn + database" where
  "update_analysis_status db now analysis_id status doctor_notes =
     (if db_schema db \<noteq> Review then Inl OperationalError
      else Inr (db\<lparr>analysis_history :=
                  map (\<lambda>r. if a_id r = analysis_id
                            then r\<lparr>a_status := Some status,
                                   a_doctor_notes := Some doctor_notes,
                                   a_last_modified := Some now\<rparr>
                            else r)
                    (analysis_history db)\<rparr>))"

section \<open>The pages (medical3.py)\<close>

text \<open>
  A page function runs once per user action. It is modelled as a function of the database,
  the time and what the user did on that run; it returns the database it leaves and what
  it showed (\<^verbatim>\<open>st.error\<close>, \<^verbatim>\<open>st.info\<close>, \<^verbatim>\<open>st.success\<close>) or
  the exception that ended the run. What an earlier statement has committed stays
  committed when a later one raises.
\<close>

datatype outcome =
    Raised exn
  | St_error string
  | St_info string
  | St_success string
  | Rendered

text \<open>\<^verbatim>\<open>xs.index(x)\<close>; \<^const>\<open>None\<close> stands for its
  \<^verbatim>\<open>ValueError\<close>.\<close>

fun index_of :: "'a list \<Rightarrow> 'a \<Rightarrow> nat option" where
  "index_of [] x = None"
| "index_of (y # ys) x = (if y = x then Some 0 else map_option Suc (index_of ys x))"

text \<open>\<^verbatim>\<open>st.selectbox(label, options, index=i)\<close> returns the option the user
  picked, and the option at \<open>i\<close> when the user picked none of them.\<close>

definition selectbox :: "'a list \<Rightarrow> nat \<Rightarrow> 'a option \<Rightarrow> 'a" where
  "selectbox options i pick =
     (case pick of
        None \<Rightarrow> options ! i
      | Some v \<Rightarrow> if v \<in> set options then v else options ! i)"

text \<open>The widgets of the doctor's dashboard, the ones of a record keyed by the id of
  the record (\<^verbatim>\<open>status_<id>\<close>, \<^verbatim>\<open>notes_<id>\<close>,
  \<^verbatim>\<open>update_<id>\<close>).\<close>

record dashboard_input =
  patient_pick :: "(nat \<times> string) option"
  status_pick :: "nat \<Rightarrow> string option"
  notes_input :: "nat \<Rightarrow> string option"
  update_clicked :: "nat \<Rightarrow> bool"

definition status_options :: "string list" where
  "status_options = [''pending'', ''approved'', ''disapproved'']"

text \<open>
  \<^verbatim>\<open>analysis[k]\<close> for an index \<open>k\<close> of 4 or more. The rows of the history
  are the tuples \<^verbatim>\<open>get_user_history\<close> fetches: they have four items, at the
  indices 0 to 3, so the read raises. The type of the result is the type the loop uses
  the value at.
\<close>

definition item_beyond :: "timestamp \<times> string \<times> string \<times> string \<Rightarrow> nat \<Rightarrow> exn + 'a" where
  "item_beyond analysis k = Inl IndexError"

text \<open>
  The loop of lines 353 to 382 over the history fetched before it, statement by
  statement: the status of line 365, the index of that status among the options
  (\<^verbatim>\<open>ValueError\<close> when it is none of them), the key of the widgets, the notes,
  the button and the update.
\<close>

fun review_loop ::
  "dashboard_input \<Rightarrow> timestamp \<Rightarrow> (timestamp \<times> string \<times> string \<times> string) list \<Rightarrow> database
   \<Rightarrow> database \<times> outcome" where
  "review_loop inp now [] db = (db, Rendered)"
| "review_loop inp now (analysis # history) db =
     (case item_beyond analysis 4 of
        Inl err \<Rightarrow> (db, Raised err)
      | Inr current_status \<Rightarrow>
          (case (case current_status of
                   None \<Rightarrow> None
                 | Some s \<Rightarrow> index_of status_options s) of
             None \<Rightarrow> (db, Raised ValueError)
           | Some i \<Rightarrow>
               (case item_beyond analysis 5 of
                  Inl err \<Rightarrow> (db, Raised err)
                | Inr aid \<Rightarrow>
                    (case item_beyond analysis 6 of
                       Inl err \<Rightarrow> (db, Raised err)
                     | Inr notes \<Rightarrow>
                         let new_status = selectbox status_options i (status_pick inp aid);
                             doctor_notes =
                               (case notes_input inp aid of
                                  None \<Rightarrow> (case notes of None \<Rightarrow> [] | Some n \<Rightarrow> n)
                                | Some t \<Rightarrow> t)
                         in if update_clicked inp aid
                            then (case update_analysis_status db now aid new_status
                                         doctor_notes of
                                    Inl err \<Rightarrow> (db, Raised err)
                                  | Inr db' \<Rightarrow> review_loop inp now history db')
                            else review_loop inp now history db))))"

text \<open>Lines 325 to 382; \<open>user_id\<close> is \<^verbatim>\<open>st.session_state.user_id\<close>.
  The selected patient is a pair, which Python never takes for false, so the test of
  line 347 has no branch here. The history is the one the module's
  \<^verbatim>\<open>get_user_history\<close> returns.\<close>

definition doctor_interface ::
  "database \<Rightarrow> timestamp \<Rightarrow> nat \<Rightarrow> dashboard_input \<Rightarrow> database \<times> outcome" where
  "doctor_interface db now user_id inp =
     (case get_doctor_id db user_id of
        Inl err \<Rightarrow> (db, Raised err)
      | Inr None \<Rightarrow> (db, St_error ''Doctor account not properly configured'')
      | Inr (Some doctor_id) \<Rightarrow>
          if doctor_id = 0 then (db, St_error ''Doctor account not properly configured'')
          else
            (case get_doctor_patients db doctor_id of
               Inl err \<Rightarrow> (db, Raised err)
             | Inr patients \<Rightarrow>
                 if patients = [] then (db, St_info ''No patients assigned yet'')
                 else
                   let selected_patient = selectbox patients 0 (patient_pick inp)
                   in (case get_user_history db (fst selected_patient) of
                         Inl err \<Rightarrow> (db, Raised err)
                       | Inr history \<Rightarrow> review_loop inp now history db)))"

text \<open>The branch of the Register button of lines 436 to 453.\<close>

definition main_register ::
  "(string \<Rightarrow> string) \<Rightarrow> database \<Rightarrow> string \<Rightarrow> string \<Rightarrow> string \<Rightarrow> string \<Rightarrow> string \<Rightarrow> string
   \<Rightarrow> database \<times> outcome" where
  "main_register hash_password db reg_role new_username new_password confirm_password
     full_name specialization =
     (if new_password \<noteq> confirm_password then (db, St_error ''Passwords do not match'')
      else if length new_password < 6
      then (db, St_error ''Password must be at least 6 characters long'')
      else
        (case create_user hash_password db new_username new_password
                (if reg_role = ''Doctor'' then ''doctor'' else ''patient'') of
           Inl err \<Rightarrow> (db, Raised err)
         | Inr (db1, user_id) \<Rightarrow>
             (case user_id of
                None \<Rightarrow> (db1, St_error ''Username already exists'')
              | Some uid \<Rightarrow>
                  if uid = 0 then (db1, St_error ''Username already exists'')
                  else if reg_role = ''Doctor''
                  then (case create_doctor db1 uid full_name specialization of
                          Inl err \<Rightarrow> (db1, Raised err)
                        | Inr (db2, created) \<Rightarrow>
                            if created
                            then (db2, St_success ''Doctor registration successful! Please login.'')
                            else (db2, St_error ''Error creating doctor profile''))
                  else (db1, St_success ''Patient registration successful! Please login.''))))"


subsection \<open>Two conditions on the tables\<close>



section \<open>Properties of the term extraction\<close>

lemma isupper_single: "isupper [c] = char_isupper c"
  by (auto simp: isupper_def char_isupper_def char_islower_def)

lemma split_Nil: "split [] = []"
  by (simp add: split_def)

lemma ent_condition_nonempty:
  "ent_text e \<noteq> [] \<Longrightarrow> ent_condition e = Inr (entity_kept e)"
  by (cases "ent_text e")
     (auto simp: ent_condition_def entity_kept_def first_isupper_def isupper_single
                 list_ex_iff)

lemma ent_condition_error:
  "(ent_condition e = Inl err) =
   (err = IndexError \<and> ent_text e = [] \<and> ent_label e \<noteq> ''CONDITION'')"
  by (cases "ent_text e")
     (auto simp: ent_condition_def first_isupper_def split_Nil)

lemma ent_condition_kept:
  "ent_condition e = Inr b \<Longrightarrow> b = entity_kept e"
  by (cases "ent_text e")
     (auto simp: ent_condition_def entity_kept_def first_isupper_def isupper_single
                 list_ex_iff split_Nil split: if_splits)

lemma ents_loop_nonempty:
  "\<forall>e \<in> set es. ent_text e \<noteq> [] \<Longrightarrow>
   ents_loop es acc = Inr (acc @ map ent_text (filter entity_kept es))"
  by (induction es arbitrary: acc) (simp_all add: ent_condition_nonempty)

lemma ents_loop_error:
  "(ents_loop es acc = Inl err) =
   (err = IndexError \<and> (\<exists>e \<in> set es. ent_text e = [] \<and> ent_label e \<noteq> ''CONDITION''))"
proof (induction es arbitrary: acc)
  case Nil
  show ?case by simp
next
  case (Cons e es)
  show ?case
  proof (cases "ent_condition e")
    case (Inl x)
    then show ?thesis using ent_condition_error [of e x] by auto
  next
    case (Inr b)
    then have "\<not> (ent_text e = [] \<and> ent_label e \<noteq> ''CONDITION'')"
      using ent_condition_error [of e IndexError] by auto
    with Inr Cons.IH show ?thesis by auto
  qed
qed

lemma ents_loop_result:
  "ents_loop es acc = Inr r \<Longrightarrow> r = acc @ map ent_text (filter entity_kept es)"
proof (induction es arbitrary: acc)
  case Nil
  then show ?case by simp
next
  case (Cons e es)
  show ?case
  proof (cases "ent_condition e")
    case (Inl x)
    with Cons.prems show ?thesis by simp
  next
    case (Inr b)
    then have b: "b = entity_kept e" by (rule ent_condition_kept)
    from Cons.prems Inr
    have "ents_loop es (if b then acc @ [ent_text e] else acc) = Inr r" by simp
    then have "r = (if b then acc @ [ent_text e] else acc)
                   @ map ent_text (filter entity_kept es)"
      by (rule Cons.IH)
    with b show ?thesis by simp
  qed
qed

lemma chunk_condition_phrase_kept: "chunk_condition ch = phrase_kept ch"
  by (auto simp: chunk_condition_def phrase_kept_def list_ex_iff)

lemma chunks_loop_eq:
  "chunks_loop chs acc = acc @ map chunk_text (filter phrase_kept chs)"
  by (induction chs arbitrary: acc) (simp_all add: chunk_condition_phrase_kept)

text \<open>The dictionary keeps the keys it has and adds the new ones in first-occurrence
  order.\<close>

lemma fromkeys_eq:
  "fromkeys keys xs = keys @ filter (\<lambda>y. y \<notin> set keys) (dedup_first xs)"
proof (induction xs arbitrary: keys)
  case Nil
  show ?case by simp
next
  case (Cons x xs)
  show ?case
  proof (cases "x \<in> set keys")
    case True
    have "filter (\<lambda>y. y \<notin> set keys) (filter (\<lambda>y. y \<noteq> x) (dedup_first xs))
          = filter (\<lambda>y. y \<notin> set keys) (dedup_first xs)"
      using True by (auto intro: filter_cong)
    with True Cons.IH [of keys] show ?thesis by simp
  next
    case False
    have "filter (\<lambda>y. y \<notin> set (keys @ [x])) (dedup_first xs)
          = filter (\<lambda>y. y \<notin> set keys) (filter (\<lambda>y. y \<noteq> x) (dedup_first xs))"
      by (auto intro: filter_cong)
    with False Cons.IH [of "keys @ [x]"] show ?thesis by simp
  qed
qed

lemma fromkeys_dedup_first: "fromkeys [] xs = dedup_first xs"
  by (simp add: fromkeys_eq)

lemma set_dedup_first: "set (dedup_first xs) = set xs"
  by (induction xs) auto

lemma distinct_dedup_first: "distinct (dedup_first xs)"
  by (induction xs) (auto simp: set_dedup_first)

lemma dedup_first_snoc:
  "dedup_first (xs @ [x]) = (if x \<in> set xs then dedup_first xs else dedup_first xs @ [x])"
  by (induction xs) (auto simp: set_dedup_first)

text \<open>\<^const>\<open>remdups\<close> of the library keeps the last occurrence of each element;
  \<^const>\<open>dedup_first\<close> is its mirror image.\<close>

lemma dedup_first_rev_remdups: "dedup_first xs = rev (remdups (rev xs))"
proof (induction xs rule: rev_induct)
  case Nil
  show ?case by simp
next
  case (snoc x xs)
  then show ?case by (simp add: dedup_first_snoc)
qed

lemma extract_result:
  "extract_medical_keywords d = Inr r \<Longrightarrow> r = extract_spec d"
  by (auto simp: extract_medical_keywords_def extract_spec_def chunks_loop_eq
                 fromkeys_dedup_first split: sum.splits dest: ents_loop_result)

lemma extract_nonempty:
  "\<forall>e \<in> set (ents d). ent_text e \<noteq> [] \<Longrightarrow>
   extract_medical_keywords d = Inr (extract_spec d)"
  by (simp add: extract_medical_keywords_def extract_spec_def ents_loop_nonempty
                chunks_loop_eq fromkeys_dedup_first)

text \<open>
  Claim C3, as the code has it. Whatever \<^verbatim>\<open>extract_medical_keywords\<close> returns is the list the
  specification describes: the texts of the entities that pass the three-way test
  (label ORG or GPE with an upper-case word, or label CONDITION, or at most three words
  and an upper-case first character), then the texts of the noun chunks with a token
  whose lower-case form is one of the twelve words, in the order the analyzer produced
  them, each text once at the place of its first occurrence. It returns for every
  analyzer output whose entities have a non-empty text, as the spans of the analyzer do.
\<close>

theorem extract_returns_spec:
  "(extract_medical_keywords d = Inr r \<longrightarrow> r = extract_spec d)
   \<and> ((\<forall>e \<in> set (ents d). ent_text e \<noteq> []) \<longrightarrow>
        extract_medical_keywords d = Inr (extract_spec d))"
  using extract_result extract_nonempty by blast

theorem extract_returns_spec_witness:
  "extract_medical_keywords
     \<lparr>ents = [\<lparr>ent_text = ''WHO'', ent_label = ''ORG''\<rparr>,
             \<lparr>ent_text = ''Type 2 Diabetes'', ent_label = ''PERSON''\<rparr>,
             \<lparr>ent_text = ''the world health org'', ent_label = ''ORG''\<rparr>,
             \<lparr>ent_text = ''WHO'', ent_label = ''ORG''\<rparr>],
      noun_chunks = [\<lparr>chunk_text = ''severe Pain'', tokens = [''severe'', ''Pain'']\<rparr>,
                     \<lparr>chunk_text = ''WHO'', tokens = [''the'', ''fever'']\<rparr>,
                     \<lparr>chunk_text = ''a car'', tokens = [''a'', ''car'']\<rparr>]\<rparr>
   = Inr [''WHO'', ''Type 2 Diabetes'', ''severe Pain'']
   \<and> extract_spec
     \<lparr>ents = [\<lparr>ent_text = ''WHO'', ent_label = ''ORG''\<rparr>,
             \<lparr>ent_text = ''Type 2 Diabetes'', ent_label = ''PERSON''\<rparr>,
             \<lparr>ent_text = ''the world health org'', ent_label = ''ORG''\<rparr>,
             \<lparr>ent_text = ''WHO'', ent_label = ''ORG''\<rparr>],
      noun_chunks = [\<lparr>chunk_text = ''severe Pain'', tokens = [''severe'', ''Pain'']\<rparr>,
                     \<lparr>chunk_text = ''WHO'', tokens = [''the'', ''fever'']\<rparr>,
                     \<lparr>chunk_text = ''a car'', tokens = [''a'', ''car'']\<rparr>]\<rparr>
   = [''WHO'', ''Type 2 Diabetes'', ''severe Pain'']"
proof -
  let ?d = "\<lparr>ents = [\<lparr>ent_text = ''WHO'', ent_label = ''ORG''\<rparr>,
             \<lparr>ent_text = ''Type 2 Diabetes'', ent_label = ''PERSON''\<rparr>,
             \<lparr>ent_text = ''the world health org'', ent_label = ''ORG''\<rparr>,
             \<lparr>ent_text = ''WHO'', ent_label = ''ORG''\<rparr>],
      noun_chunks = [\<lparr>chunk_text = ''severe Pain'', tokens = [''severe'', ''Pain'']\<rparr>,
                     \<lparr>chunk_text = ''WHO'', tokens = [''the'', ''fever'']\<rparr>,
                     \<lparr>chunk_text = ''a car'', tokens = [''a'', ''car'']\<rparr>]\<rparr>"
  have run: "extract_medical_keywords ?d = Inr [''WHO'', ''Type 2 Diabetes'', ''severe Pain'']"
    by code_simp
  have texts: "\<forall>e \<in> set (ents ?d). ent_text e \<noteq> []"
    by simp
  from extract_returns_spec [of ?d "[''WHO'', ''Type 2 Diabetes'', ''severe Pain'']"] texts run
  show ?thesis by simp
qed

text \<open>
  An analyzer output with an entity whose text is empty: the specification's list is
  empty, and the extraction raises instead of returning it.
\<close>

theorem extract_empty_text_not_spec:
  "extract_medical_keywords
     \<lparr>ents = [\<lparr>ent_text = [], ent_label = ''ORG''\<rparr>], noun_chunks = []\<rparr>
   = Inl IndexError
   \<and> extract_spec
     \<lparr>ents = [\<lparr>ent_text = [], ent_label = ''ORG''\<rparr>], noun_chunks = []\<rparr>
   = []"
  by code_simp

text \<open>
  Claim C10, as the code has it. \<^verbatim>\<open>ent.text[0]\<close> is read without a guard,
  and \<^verbatim>\<open>IndexError\<close> is the only exception of the extraction: it is raised
  exactly when some entity has an empty text and a label other than CONDITION. An
  entity labelled CONDITION is kept before its first character is looked at. So the
  extraction returns whenever every entity has a non-empty text, and an empty text
  makes it raise only under a label other than CONDITION.
\<close>

theorem extract_raises_iff:
  "(extract_medical_keywords d = Inl err) =
   (err = IndexError
    \<and> (\<exists>e \<in> set (ents d). ent_text e = [] \<and> ent_label e \<noteq> ''CONDITION''))"
  using ents_loop_error [of "ents d" "[]" err]
  by (auto simp: extract_medical_keywords_def split: sum.splits)

theorem extract_raises_iff_witness:
  "extract_medical_keywords
     \<lparr>ents = [\<lparr>ent_text = [], ent_label = ''PERSON''\<rparr>], noun_chunks = []\<rparr>
   = Inl IndexError"
  using extract_raises_iff
          [of "\<lparr>ents = [\<lparr>ent_text = [], ent_label = ''PERSON''\<rparr>], noun_chunks = []\<rparr>"
              IndexError]
  by simp

text \<open>An entity with an empty text and the label CONDITION: the extraction returns.\<close>

theorem extract_empty_condition_returns:
  "extract_medical_keywords
     \<lparr>ents = [\<lparr>ent_text = [], ent_label = ''CONDITION''\<rparr>], noun_chunks = []\<rparr>
   = Inr [[]]"
  by code_simp

section \<open>Properties of the summary\<close>

lemma join_Cons: "ks \<noteq> [] \<Longrightarrow> join sep (k # ks) = k @ sep @ join sep ks"
  by (cases ks) simp_all

lemma join_butlast_last:
  "ks \<noteq> [] \<Longrightarrow> join sep ks = concat (map (\<lambda>k. k @ sep) (butlast ks)) @ last ks"
proof (induction ks)
  case Nil
  then show ?case by simp
next
  case (Cons k ks)
  show ?case
  proof (cases "ks = []")
    case True
    then show ?thesis by simp
  next
    case False
    with Cons.IH show ?thesis by (simp add: join_Cons)
  qed
qed

text \<open>
  Claim C9. \<^verbatim>\<open>generate_summary\<close> returns a sentence for every list of terms:
  the fixed sentence that no terms were identified for the empty list, and otherwise the
  fixed opening followed by the terms in the order given, each term but the last
  followed by a comma and a space, and a full stop after the last one. No term is moved
  or dropped.
\<close>

theorem generate_summary_sentence:
  "generate_summary [] = ''No specific medical terms were identified in the input.''
   \<and> (keywords \<noteq> [] \<longrightarrow>
        generate_summary keywords =
          ''Based on the analysis, the key medical conditions and symptoms include: ''
          @ concat (map (\<lambda>k. k @ '', '') (butlast keywords)) @ last keywords @ ''.'')"
  by (simp add: generate_summary_def join_butlast_last)

theorem generate_summary_sentence_witness:
  "[''fever'', ''cough''] \<noteq> [] \<and>
   generate_summary [''fever'', ''cough''] =
     ''Based on the analysis, the key medical conditions and symptoms include: fever, cough.''"
  using generate_summary_sentence [of "[''fever'', ''cough'']"] by simp

section \<open>Properties of the accounts\<close>

lemma fold_max_ge: "(a::nat) \<le> fold max ids a"
  by (induction ids arbitrary: a) (auto intro: order_trans [OF max.cobounded2])

lemma fold_max_mem: "x \<in> set ids \<Longrightarrow> (x::nat) \<le> fold max ids a"
proof (induction ids arbitrary: a)
  case Nil
  then show ?case by simp
next
  case (Cons i ids)
  show ?case
  proof (cases "x = i")
    case True
    have "i \<le> max i a" by simp
    also have "\<dots> \<le> fold max ids (max i a)" by (rule fold_max_ge)
    finally show ?thesis using True by simp
  next
    case False
    with Cons show ?thesis by simp
  qed
qed

lemma fresh_rowid_notin: "fresh_rowid ids \<notin> set ids"
  using fold_max_mem [of "fresh_rowid ids" ids 0] by (auto simp: fresh_rowid_def)


lemma find_append_none:
  "\<forall>x \<in> set xs. \<not> P x \<Longrightarrow> find P (xs @ ys) = find P ys"
  by (induction xs) simp_all

lemma find_none: "\<forall>x \<in> set xs. \<not> P x \<Longrightarrow> find P xs = None"
  by (induction xs) simp_all

lemma create_user_Some:
  "create_user H db u p role = Inr (db', Some uid) \<Longrightarrow>
   db_schema db = Review \<and> u \<notin> set (map u_username (users db))
   \<and> uid = fresh_rowid (map u_id (users db))
   \<and> db' = db\<lparr>users := users db @
               [\<lparr>u_id = uid, u_username = u, u_password = H p, u_role = role\<rparr>]\<rparr>"
  by (auto simp: create_user_def Let_def split: if_splits)

text \<open>
  Claim C7. After \<^verbatim>\<open>create_user(u, p, role)\<close> has returned an id,
  \<^verbatim>\<open>verify_user(u, p)\<close> returns that id with that role;
  \<^verbatim>\<open>verify_user(u, p')\<close> returns \<^verbatim>\<open>None\<close> for every password whose hash
  differs from the hash of \<open>p\<close>, and so does \<^verbatim>\<open>verify_user\<close> for every username
  that is not in the table. \<^verbatim>\<open>None\<close> is the one failure value of
  \<^verbatim>\<open>verify_user\<close>; the login pages show it as "Invalid username or password".
\<close>

theorem register_then_authenticate:
  assumes "create_user H db u p role = Inr (db', Some uid)"
  shows "verify_user H db' u p = Inr (Some \<lparr>login_id = uid, login_role = role\<rparr>)
         \<and> (\<forall>p'. H p' \<noteq> H p \<longrightarrow> verify_user H db' u p' = Inr None)
         \<and> (\<forall>u' p'. u' \<notin> set (map u_username (users db')) \<longrightarrow>
               verify_user H db' u' p' = Inr None)"
proof -
  from assms have s: "db_schema db = Review"
    and fresh: "u \<notin> set (map u_username (users db))"
    and db': "db' = db\<lparr>users := users db @
               [\<lparr>u_id = uid, u_username = u, u_password = H p, u_role = role\<rparr>]\<rparr>"
    using create_user_Some by blast+
  from fresh have "\<forall>r \<in> set (users db). \<not> u_username r = u" by auto
  then have f: "find (\<lambda>r. u_username r = u) (users db') =
             Some \<lparr>u_id = uid, u_username = u, u_password = H p, u_role = role\<rparr>"
    by (simp add: db' find_append_none)
  have 1: "verify_user H db' u p = Inr (Some \<lparr>login_id = uid, login_role = role\<rparr>)"
    using s f by (simp add: verify_user_def db')
  have 2: "\<forall>p'. H p' \<noteq> H p \<longrightarrow> verify_user H db' u p' = Inr None"
    using s f by (auto simp: verify_user_def db')
  have 3: "\<forall>u' p'. u' \<notin> set (map u_username (users db')) \<longrightarrow>
               verify_user H db' u' p' = Inr None"
  proof (intro allI impI)
    fix u' p'
    assume "u' \<notin> set (map u_username (users db'))"
    then have "\<forall>r \<in> set (users db'). \<not> u_username r = u'" by auto
    then have "find (\<lambda>r. u_username r = u') (users db') = None" by (rule find_none)
    then show "verify_user H db' u' p' = Inr None"
      using s by (simp add: verify_user_def db')
  qed
  from 1 2 3 show ?thesis by blast
qed

theorem register_then_authenticate_witness:
  "verify_user (\<lambda>s. s)
     \<lparr>db_schema = Review,
      users = [\<lparr>u_id = 1, u_username = ''alice'', u_password = ''correct'',
                u_role = ''patient''\<rparr>],
      doctors = [], doctor_patient = [], analysis_history = []\<rparr>
     ''alice'' ''correct''
   = Inr (Some \<lparr>login_id = 1, login_role = ''patient''\<rparr>)
   \<and> verify_user (\<lambda>s. s)
     \<lparr>db_schema = Review,
      users = [\<lparr>u_id = 1, u_username = ''alice'', u_password = ''correct'',
                u_role = ''patient''\<rparr>],
      doctors = [], doctor_patient = [], analysis_history = []\<rparr>
     ''alice'' ''wrong''
   = Inr None
   \<and> verify_user (\<lambda>s. s)
     \<lparr>db_schema = Review,
      users = [\<lparr>u_id = 1, u_username = ''alice'', u_password = ''correct'',
                u_role = ''patient''\<rparr>],
      doctors = [], doctor_patient = [], analysis_history = []\<rparr>
     ''mallory'' ''correct''
   = Inr None"
proof -
  let ?db = "\<lparr>db_schema = Review, users = [], doctors = [], doctor_patient = [],
              analysis_history = []\<rparr>"
  let ?db' = "\<lparr>db_schema = Review,
      users = [\<lparr>u_id = 1, u_username = ''alice'', u_password = ''correct'',
                u_role = ''patient''\<rparr>],
      doctors = [], doctor_patient = [], analysis_history = []\<rparr>"
  have reg: "create_user (\<lambda>s. s) ?db ''alice'' ''correct'' ''patient'' = Inr (?db', Some 1)"
    by (simp add: create_user_def fresh_rowid_def)
  from register_then_authenticate [OF reg]
  have "verify_user (\<lambda>s. s) ?db' ''alice'' ''correct''
          = Inr (Some \<lparr>login_id = 1, login_role = ''patient''\<rparr>)"
    and w: "\<forall>p'. p' \<noteq> ''correct'' \<longrightarrow> verify_user (\<lambda>s. s) ?db' ''alice'' p' = Inr None"
    and n: "\<forall>u' p'. u' \<notin> set (map u_username (users ?db')) \<longrightarrow>
               verify_user (\<lambda>s. s) ?db' u' p' = Inr None"
    by blast+
  moreover from w have "verify_user (\<lambda>s. s) ?db' ''alice'' ''wrong'' = Inr None"
    by simp
  moreover from n have "verify_user (\<lambda>s. s) ?db' ''mallory'' ''correct'' = Inr None"
    by simp
  ultimately show ?thesis by blast
qed

lemma main_register_weak:
  "length p < 6 \<Longrightarrow>
   main_register H db reg_role u p p full_name specialization =
     (db, St_error ''Password must be at least 6 characters long'')"
  by (simp add: main_register_def)

lemma main_register_taken:
  "6 \<le> length p \<Longrightarrow> db_schema db = Review \<Longrightarrow> u \<in> set (map u_username (users db)) \<Longrightarrow>
   main_register H db reg_role u p p full_name specialization =
     (db, St_error ''Username already exists'')"
  by (simp add: main_register_def create_user_def)

lemma main_register_success:
  "main_register H db reg_role u p c full_name specialization = (db1, St_success msg) \<Longrightarrow>
   db_schema db1 = Review \<and> u \<in> set (map u_username (users db1))"
  by (auto simp: main_register_def create_user_def create_doctor_def Let_def
           split: if_splits sum.splits option.splits prod.splits)

lemma main_register_six:
  "length p = 6 \<Longrightarrow>
   snd (main_register H db reg_role u p p full_name specialization) \<noteq>
     St_error ''Password must be at least 6 characters long''"
  by (auto simp: main_register_def split: if_splits sum.splits option.splits prod.splits)

text \<open>
  Claim C8. With the password typed twice alike: a password of fewer than six
  characters is refused with "Password must be at least 6 characters long" and the
  database stays as it was; a password of six characters is not refused for its length;
  a username that is in the table is refused with "Username already exists" and the
  database stays as it was; and after a registration that succeeded, a second
  registration of the same username is refused in that way.
\<close>

theorem registration_errors:
  "(length p < 6 \<longrightarrow>
      main_register H db reg_role u p p full_name specialization =
        (db, St_error ''Password must be at least 6 characters long''))
   \<and> (length p = 6 \<longrightarrow>
      snd (main_register H db reg_role u p p full_name specialization) \<noteq>
        St_error ''Password must be at least 6 characters long'')
   \<and> (6 \<le> length p \<and> db_schema db = Review \<and> u \<in> set (map u_username (users db)) \<longrightarrow>
      main_register H db reg_role u p p full_name specialization =
        (db, St_error ''Username already exists''))
   \<and> (main_register H db reg_role u p p full_name specialization = (db1, St_success msg)
      \<and> 6 \<le> length p2 \<longrightarrow>
      main_register H db1 reg_role2 u p2 p2 full_name2 specialization2 =
        (db1, St_error ''Username already exists''))"
proof (intro conjI impI)
  assume "length p < 6"
  then show "main_register H db reg_role u p p full_name specialization =
        (db, St_error ''Password must be at least 6 characters long'')"
    by (rule main_register_weak)
next
  assume "length p = 6"
  then show "snd (main_register H db reg_role u p p full_name specialization) \<noteq>
        St_error ''Password must be at least 6 characters long''"
    by (rule main_register_six)
next
  assume "6 \<le> length p \<and> db_schema db = Review \<and> u \<in> set (map u_username (users db))"
  then show "main_register H db reg_role u p p full_name specialization =
        (db, St_error ''Username already exists'')"
    by (simp add: main_register_taken)
next
  assume a: "main_register H db reg_role u p p full_name specialization = (db1, St_success msg)
      \<and> 6 \<le> length p2"
  then have "db_schema db1 = Review \<and> u \<in> set (map u_username (users db1))"
    using main_register_success by blast
  with a show "main_register H db1 reg_role2 u p2 p2 full_name2 specialization2 =
        (db1, St_error ''Username already exists'')"
    by (simp add: main_register_taken)
qed

theorem registration_errors_witness:
  "main_register (\<lambda>s. s)
     \<lparr>db_schema = Review, users = [], doctors = [], doctor_patient = [],
      analysis_history = []\<rparr>
     ''Patient'' ''alice'' ''12345'' ''12345'' [] []
   = (\<lparr>db_schema = Review, users = [], doctors = [], doctor_patient = [],
       analysis_history = []\<rparr>,
      St_error ''Password must be at least 6 characters long'')
   \<and> snd (main_register (\<lambda>s. s)
     \<lparr>db_schema = Review, users = [], doctors = [], doctor_patient = [],
      analysis_history = []\<rparr>
     ''Patient'' ''alice'' ''123456'' ''123456'' [] [])
     \<noteq> St_error ''Password must be at least 6 characters long''
   \<and> main_register (\<lambda>s. s)
     \<lparr>db_schema = Review,
      users = [\<lparr>u_id = 1, u_username = ''alice'', u_password = ''123456'',
                u_role = ''patient''\<rparr>],
      doctors = [], doctor_patient = [], analysis_history = []\<rparr>
     ''Doctor'' ''alice'' ''abcdefg'' ''abcdefg'' ''Alice'' ''ENT''
   = (\<lparr>db_schema = Review,
      users = [\<lparr>u_id = 1, u_username = ''alice'', u_password = ''123456'',
                u_role = ''patient''\<rparr>],
      doctors = [], doctor_patient = [], analysis_history = []\<rparr>,
      St_error ''Username already exists'')"
proof -
  let ?db = "\<lparr>db_schema = Review, users = [], doctors = [], doctor_patient = [],
              analysis_history = []\<rparr>"
  let ?db1 = "\<lparr>db_schema = Review,
      users = [\<lparr>u_id = 1, u_username = ''alice'', u_password = ''123456'',
                u_role = ''patient''\<rparr>],
      doctors = [], doctor_patient = [], analysis_history = []\<rparr>"
  have first: "main_register (\<lambda>s. s) ?db ''Patient'' ''alice'' ''123456'' ''123456'' [] []
               = (?db1, St_success ''Patient registration successful! Please login.'')"
    by (simp add: main_register_def create_user_def fresh_rowid_def)
  have short: "length ''12345'' < 6" and six: "length ''123456'' = 6"
    and long: "6 \<le> length ''abcdefg''" by simp_all
  from registration_errors [of "''12345''" "\<lambda>s. s" ?db "''Patient''" "''alice''" "[]" "[]"] short
  have a: "main_register (\<lambda>s. s) ?db ''Patient'' ''alice'' ''12345'' ''12345'' [] []
           = (?db, St_error ''Password must be at least 6 characters long'')"
    by blast
  from registration_errors [of "''123456''" "\<lambda>s. s" ?db "''Patient''" "''alice''" "[]" "[]" ?db1
                "''Patient registration successful! Please login.''" "''abcdefg''"
                "''Doctor''" "''Alice''" "''ENT''"] six long first
  have b: "snd (main_register (\<lambda>s. s) ?db ''Patient'' ''alice'' ''123456'' ''123456'' [] [])
             \<noteq> St_error ''Password must be at least 6 characters long''"
    and c: "main_register (\<lambda>s. s) ?db1 ''Doctor'' ''alice'' ''abcdefg'' ''abcdefg''
              ''Alice'' ''ENT'' = (?db1, St_error ''Username already exists'')"
    by blast+
  from a b c show ?thesis by blast
qed







section \<open>Properties of the analysis records\<close>

lemma order_by_date_desc_sorted:
  "sorted_wrt (\<lambda>x y. a_analysis_date y \<le> a_analysis_date x) (order_by_date_desc rows)"
proof -
  have "sorted (map a_analysis_date (sort_key a_analysis_date (rev rows)))"
    by (rule sorted_sort_key)
  then have "sorted_wrt (\<lambda>x y. a_analysis_date x \<le> a_analysis_date y)
               (sort_key a_analysis_date (rev rows))"
    by (simp add: sorted_wrt_map)
  then show ?thesis
    by (simp add: order_by_date_desc_def sorted_wrt_rev)
qed

lemma order_by_date_desc_mset: "mset (order_by_date_desc rows) = mset rows"
  by (simp add: order_by_date_desc_def)

lemma order_by_date_desc_three:
  "a_analysis_date a < a_analysis_date b \<Longrightarrow> a_analysis_date b < a_analysis_date c \<Longrightarrow>
   order_by_date_desc [a, b, c] = [c, b, a]"
  by (simp add: order_by_date_desc_def)

lemma save_analysis_Inr:
  "save_analysis db now uid m s r = Inr db' \<Longrightarrow>
   db_schema db \<noteq> NoTables \<and> db_schema db' = db_schema db \<and>
   analysis_history db' = analysis_history db @
     [\<lparr>a_id = fresh_rowid (map a_id (analysis_history db)),
       a_user_id = uid, a_analysis_date = now, a_medical_terms = m, a_summary = s,
       a_recommendations = r, a_doctor_id = None,
       a_status = (if db_schema db = Review then Some ''pending'' else None),
       a_doctor_notes = None, a_last_modified = None\<rparr>]"
  by (auto simp: save_analysis_def split: if_splits)

text \<open>The ids \<^verbatim>\<open>save_analysis\<close> gives stay distinct, as a primary key is.\<close>

lemma save_analysis_distinct:
  assumes "save_analysis db now uid m s r = Inr db'"
    and "distinct (map a_id (analysis_history db))"
  shows "distinct (map a_id (analysis_history db'))"
  using save_analysis_Inr [OF assms(1)] assms(2)
    fresh_rowid_notin [of "map a_id (analysis_history db)"]
  by simp

text \<open>
  Claim C6. \<^verbatim>\<open>get_user_history\<close> returns the records of the user, all of
  them and no other, by decreasing \<^verbatim>\<open>analysis_date\<close>. Three records saved for
  a user without earlier records at times \<open>t1 < t2 < t3\<close> come back as the third, the
  second, the first.
\<close>

theorem get_user_history_newest_first:
  "(get_user_history db uid = Inr h \<longrightarrow>
      sorted_wrt (\<lambda>x y. fst y \<le> fst x) h
      \<and> mset h = mset (map (\<lambda>r. (a_analysis_date r, a_medical_terms r, a_summary r,
                                   a_recommendations r))
                        (filter (\<lambda>r. a_user_id r = uid) (analysis_history db))))
   \<and> ((\<forall>r \<in> set (analysis_history db). a_user_id r \<noteq> uid) \<and> t1 < t2 \<and> t2 < t3
       \<and> save_analysis db t1 uid m1 s1 r1 = Inr db1
       \<and> save_analysis db1 t2 uid m2 s2 r2 = Inr db2
       \<and> save_analysis db2 t3 uid m3 s3 r3 = Inr db3 \<longrightarrow>
       get_user_history db3 uid = Inr [(t3, m3, s3, r3), (t2, m2, s2, r2), (t1, m1, s1, r1)])"
proof (intro conjI impI)
  assume h: "get_user_history db uid = Inr h"
  let ?rows = "filter (\<lambda>r. a_user_id r = uid) (analysis_history db)"
  let ?p = "\<lambda>r. (a_analysis_date r, a_medical_terms r, a_summary r, a_recommendations r)"
  from h have eq: "h = map ?p (order_by_date_desc ?rows)"
    by (auto simp: get_user_history_def split: if_splits)
  show "sorted_wrt (\<lambda>x y. fst y \<le> fst x) h"
    using order_by_date_desc_sorted [of ?rows] by (simp add: eq sorted_wrt_map)
  show "mset h = mset (map ?p ?rows)"
    by (simp add: eq order_by_date_desc_mset)
next
  assume a: "(\<forall>r \<in> set (analysis_history db). a_user_id r \<noteq> uid) \<and> t1 < t2 \<and> t2 < t3
       \<and> save_analysis db t1 uid m1 s1 r1 = Inr db1
       \<and> save_analysis db1 t2 uid m2 s2 r2 = Inr db2
       \<and> save_analysis db2 t3 uid m3 s3 r3 = Inr db3"
  then have none: "filter (\<lambda>r. a_user_id r = uid) (analysis_history db) = []"
    by (auto simp: filter_empty_conv)
  from a have 1: "save_analysis db t1 uid m1 s1 r1 = Inr db1"
    and 2: "save_analysis db1 t2 uid m2 s2 r2 = Inr db2"
    and 3: "save_analysis db2 t3 uid m3 s3 r3 = Inr db3"
    and lt: "t1 < t2" "t2 < t3" by simp_all
  note i1 = save_analysis_Inr [OF 1] and i2 = save_analysis_Inr [OF 2]
    and i3 = save_analysis_Inr [OF 3]
  have s3: "db_schema db3 \<noteq> NoTables" using i1 i2 i3 by simp
  have "filter (\<lambda>r. a_user_id r = uid) (analysis_history db3) =
        [\<lparr>a_id = fresh_rowid (map a_id (analysis_history db)),
          a_user_id = uid, a_analysis_date = t1, a_medical_terms = m1, a_summary = s1,
          a_recommendations = r1, a_doctor_id = None,
          a_status = (if db_schema db = Review then Some ''pending'' else None),
          a_doctor_notes = None, a_last_modified = None\<rparr>,
         \<lparr>a_id = fresh_rowid (map a_id (analysis_history db1)),
          a_user_id = uid, a_analysis_date = t2, a_medical_terms = m2, a_summary = s2,
          a_recommendations = r2, a_doctor_id = None,
          a_status = (if db_schema db1 = Review then Some ''pending'' else None),
          a_doctor_notes = None, a_last_modified = None\<rparr>,
         \<lparr>a_id = fresh_rowid (map a_id (analysis_history db2)),
          a_user_id = uid, a_analysis_date = t3, a_medical_terms = m3, a_summary = s3,
          a_recommendations = r3, a_doctor_id = None,
          a_status = (if db_schema db2 = Review then Some ''pending'' else None),
          a_doctor_notes = None, a_last_modified = None\<rparr>]"
    using i1 i2 i3 none by simp
  then show "get_user_history db3 uid =
             Inr [(t3, m3, s3, r3), (t2, m2, s2, r2), (t1, m1, s1, r1)]"
    using s3 lt by (simp add: get_user_history_def order_by_date_desc_three)
qed

theorem get_user_history_newest_first_witness:
  "\<exists>db1 db2 db3.
     save_analysis
       \<lparr>db_schema = Review, users = [], doctors = [], doctor_patient = [],
        analysis_history = []\<rparr> 100 7 ''fever'' ''s1'' ''r1'' = Inr db1
     \<and> save_analysis db1 200 7 ''cough'' ''s2'' ''r2'' = Inr db2
     \<and> save_analysis db2 300 7 ''pain'' ''s3'' ''r3'' = Inr db3
     \<and> get_user_history db3 7 =
         Inr [(300, ''pain'', ''s3'', ''r3''), (200, ''cough'', ''s2'', ''r2''),
              (100, ''fever'', ''s1'', ''r1'')]
     \<and> sorted_wrt (\<lambda>x y. fst y \<le> fst x)
         [(300 :: nat, ''pain'', ''s3'', ''r3''), (200, ''cough'', ''s2'', ''r2''),
          (100, ''fever'', ''s1'', ''r1'')]"
proof -
  let ?db = "\<lparr>db_schema = Review, users = [], doctors = [], doctor_patient = [],
              analysis_history = []\<rparr>"
  obtain db1 where 1: "save_analysis ?db 100 7 ''fever'' ''s1'' ''r1'' = Inr db1"
    by (simp add: save_analysis_def)
  then have s1: "db_schema db1 \<noteq> NoTables" by (auto dest: save_analysis_Inr)
  obtain db2 where 2: "save_analysis db1 200 7 ''cough'' ''s2'' ''r2'' = Inr db2"
    using s1 by (simp add: save_analysis_def)
  then have s2: "db_schema db2 \<noteq> NoTables" using s1 by (auto dest: save_analysis_Inr)
  obtain db3 where 3: "save_analysis db2 300 7 ''pain'' ''s3'' ''r3'' = Inr db3"
    using s2 by (simp add: save_analysis_def)
  have none: "\<forall>r \<in> set (analysis_history ?db). a_user_id r \<noteq> 7" by simp
  have lt: "(100 :: nat) < 200" "(200 :: nat) < 300" by simp_all
  from get_user_history_newest_first [of ?db 7 "[]" 100 200 300 "''fever''" "''s1''" "''r1''" db1
              "''cough''" "''s2''" "''r2''" db2 "''pain''" "''s3''" "''r3''" db3]
    none lt 1 2 3
  have h: "get_user_history db3 7 =
         Inr [(300, ''pain'', ''s3'', ''r3''), (200, ''cough'', ''s2'', ''r2''),
              (100, ''fever'', ''s1'', ''r1'')]"
    by blast
  from get_user_history_newest_first [of db3 7 "[(300, ''pain'', ''s3'', ''r3''), (200, ''cough'', ''s2'', ''r2''),
              (100, ''fever'', ''s1'', ''r1'')]"] h
  have "sorted_wrt (\<lambda>x y. fst y \<le> fst x)
         [(300 :: nat, ''pain'', ''s3'', ''r3''), (200, ''cough'', ''s2'', ''r2''),
          (100, ''fever'', ''s1'', ''r1'')]"
    by blast
  with 1 2 3 h show ?thesis by blast
qed

text \<open>
  On a database with the tables of lines 35 to 80 both definitions of
  \<^verbatim>\<open>save_analysis\<close> leave the new record with the status
  \<^verbatim>\<open>'pending'\<close>: the first writes it, the second gets the default of the column.
\<close>

lemma save_analysis_review_pending:
  "db_schema db = Review \<Longrightarrow>
   (\<exists>db'. save_analysis db now uid m s r = Inr db'
      \<and> a_status (last (analysis_history db')) = Some ''pending'')
   \<and> (\<exists>db'. save_analysis_1 db now uid m s r = Inr db'
      \<and> a_status (last (analysis_history db')) = Some ''pending'')"
  by (simp add: save_analysis_def save_analysis_1_def)

text \<open>
  Claim C4. On the database that \<^verbatim>\<open>init_db\<close> makes of a new file, the
  \<^verbatim>\<open>save_analysis\<close> the module ends up with creates a record that has no
  status: the statement writes none and the table has no such column.
\<close>

theorem save_analysis_after_init_db:
  "save_analysis (init_db new_file) 100 1 ''fever'' ''summary'' ''advice'' =
     Inr \<lparr>db_schema = Legacy, users = [], doctors = [], doctor_patient = [],
           analysis_history =
             [\<lparr>a_id = 1, a_user_id = 1, a_analysis_date = 100,
               a_medical_terms = ''fever'', a_summary = ''summary'',
               a_recommendations = ''advice'', a_doctor_id = None,
               a_status = None, a_doctor_notes = None, a_last_modified = None\<rparr>]\<rparr>"
  by (simp add: save_analysis_def init_db_def new_file_def fresh_rowid_def)


lemma update_analysis_status_Inr:
  "db_schema db = Review \<Longrightarrow>
   update_analysis_status db now aid s n =
     Inr (db\<lparr>analysis_history :=
            map (\<lambda>r. if a_id r = aid
                      then r\<lparr>a_status := Some s, a_doctor_notes := Some n,
                             a_last_modified := Some now\<rparr>
                      else r)
              (analysis_history db)\<rparr>)"
  by (simp add: update_analysis_status_def)

lemma update_analysis_status_absent:
  assumes "db_schema db = Review" and "aid \<notin> set (map a_id (analysis_history db))"
  shows "update_analysis_status db now aid s n = Inr db"
proof -
  have "map (\<lambda>r. if a_id r = aid
                      then r\<lparr>a_status := Some s, a_doctor_notes := Some n,
                             a_last_modified := Some now\<rparr>
                      else r) (analysis_history db) = analysis_history db"
    using assms(2) by (intro map_idI) auto
  with assms(1) show ?thesis by (simp add: update_analysis_status_Inr)
qed

lemma update_analysis_status_effect:
  assumes "update_analysis_status db now aid s n = Inr db'"
  shows "db_schema db' = Review \<and> db_schema db = Review
    \<and> users db' = users db \<and> doctors db' = doctors db
    \<and> doctor_patient db' = doctor_patient db
    \<and> map a_id (analysis_history db') = map a_id (analysis_history db)
    \<and> (\<forall>i < length (analysis_history db).
          (a_id (analysis_history db ! i) = aid \<longrightarrow>
             analysis_history db' ! i =
               (analysis_history db ! i)\<lparr>a_status := Some s, a_doctor_notes := Some n,
                                          a_last_modified := Some now\<rparr>)
          \<and> (a_id (analysis_history db ! i) \<noteq> aid \<longrightarrow>
               analysis_history db' ! i = analysis_history db ! i))"
  using assms by (auto simp: update_analysis_status_def split: if_splits)

lemma selectbox_mem:
  "i < length options \<Longrightarrow> selectbox options i pick \<in> set options"
  by (auto simp: selectbox_def split: option.splits)

lemma index_of_less: "index_of xs x = Some i \<Longrightarrow> i < length xs"
  by (induction xs arbitrary: i) (auto split: if_splits)

lemma update_analysis_status_rows:
  "db_schema db = Review \<longrightarrow>
     (\<exists>db'. update_analysis_status db now aid status doctor_notes = Inr db'
        \<and> length (analysis_history db') = length (analysis_history db)
        \<and> (\<forall>i < length (analysis_history db).
              (a_id (analysis_history db ! i) = aid \<longrightarrow>
                 analysis_history db' ! i =
                   (analysis_history db ! i)\<lparr>a_status := Some status,
                      a_doctor_notes := Some doctor_notes, a_last_modified := Some now\<rparr>)
              \<and> (a_id (analysis_history db ! i) \<noteq> aid \<longrightarrow>
                   analysis_history db' ! i = analysis_history db ! i))
        \<and> (aid \<notin> set (map a_id (analysis_history db)) \<longrightarrow> db' = db))"
proof
  assume s: "db_schema db = Review"
  then obtain db' where u: "update_analysis_status db now aid status doctor_notes = Inr db'"
    by (simp add: update_analysis_status_Inr)
  note e = update_analysis_status_effect [OF u]
  from e have "length (map a_id (analysis_history db')) = length (map a_id (analysis_history db))"
    by simp
  then have len: "length (analysis_history db') = length (analysis_history db)" by simp
  have absent: "aid \<notin> set (map a_id (analysis_history db)) \<longrightarrow> db' = db"
    using update_analysis_status_absent [OF s, of aid now status doctor_notes] u by auto
  from u len e absent
  show "\<exists>db'. update_analysis_status db now aid status doctor_notes = Inr db'
        \<and> length (analysis_history db') = length (analysis_history db)
        \<and> (\<forall>i < length (analysis_history db).
              (a_id (analysis_history db ! i) = aid \<longrightarrow>
                 analysis_history db' ! i =
                   (analysis_history db ! i)\<lparr>a_status := Some status,
                      a_doctor_notes := Some doctor_notes, a_last_modified := Some now\<rparr>)
              \<and> (a_id (analysis_history db ! i) \<noteq> aid \<longrightarrow>
                   analysis_history db' ! i = analysis_history db ! i))
        \<and> (aid \<notin> set (map a_id (analysis_history db)) \<longrightarrow> db' = db)"
    by blast
qed

text \<open>
  Claim C5, as the code has it. \<^verbatim>\<open>update_analysis_status\<close> raises neither
  for an unknown id nor for an unknown status. On a database with the review columns it
  always returns; every record with the given id gets the given status, whatever the
  string is, the given notes, and the time of the call as \<^verbatim>\<open>last_modified\<close>;
  the other records stay as they were; and when no record has the id, the database is
  unchanged. The status is restricted only on the dashboard, whose select box returns
  one of the three options.
\<close>

theorem update_review_unchecked:
  "(db_schema db = Review \<longrightarrow>
     (\<exists>db'. update_analysis_status db now aid status doctor_notes = Inr db'
        \<and> length (analysis_history db') = length (analysis_history db)
        \<and> (\<forall>i < length (analysis_history db).
              (a_id (analysis_history db ! i) = aid \<longrightarrow>
                 analysis_history db' ! i =
                   (analysis_history db ! i)\<lparr>a_status := Some status,
                      a_doctor_notes := Some doctor_notes, a_last_modified := Some now\<rparr>)
              \<and> (a_id (analysis_history db ! i) \<noteq> aid \<longrightarrow>
                   analysis_history db' ! i = analysis_history db ! i))
        \<and> (aid \<notin> set (map a_id (analysis_history db)) \<longrightarrow> db' = db)))
   \<and> (index_of status_options current = Some ix \<longrightarrow>
        selectbox status_options ix pick \<in> {''pending'', ''approved'', ''disapproved''})"
proof (intro conjI)
  show "index_of status_options current = Some ix \<longrightarrow>
        selectbox status_options ix pick \<in> {''pending'', ''approved'', ''disapproved''}"
  proof
    assume "index_of status_options current = Some ix"
    then have "ix < length status_options" by (rule index_of_less)
    then have "selectbox status_options ix pick \<in> set status_options"
      by (rule selectbox_mem)
    then show "selectbox status_options ix pick \<in> {''pending'', ''approved'', ''disapproved''}"
      by (simp add: status_options_def)
  qed
qed (rule update_analysis_status_rows)

theorem update_review_unchecked_witness:
  "\<exists>db'. update_analysis_status
     \<lparr>db_schema = Review, users = [], doctors = [], doctor_patient = [],
      analysis_history =
        [\<lparr>a_id = 1, a_user_id = 2, a_analysis_date = 100, a_medical_terms = ''fever'',
          a_summary = ''s'', a_recommendations = ''r'', a_doctor_id = None,
          a_status = Some ''pending'', a_doctor_notes = None, a_last_modified = None\<rparr>]\<rparr>
     500 1 ''approved'' ''looks fine'' = Inr db'
     \<and> a_status (analysis_history db' ! 0) = Some ''approved''
     \<and> a_doctor_notes (analysis_history db' ! 0) = Some ''looks fine''
     \<and> a_last_modified (analysis_history db' ! 0) = Some 500
     \<and> selectbox status_options 0 (Some ''bogus'')
          \<in> {''pending'', ''approved'', ''disapproved''}"
proof -
  let ?r = "\<lparr>a_id = 1, a_user_id = 2, a_analysis_date = 100, a_medical_terms = ''fever'',
          a_summary = ''s'', a_recommendations = ''r'', a_doctor_id = None,
          a_status = Some ''pending'', a_doctor_notes = None, a_last_modified = None\<rparr>"
  let ?db = "\<lparr>db_schema = Review, users = [], doctors = [], doctor_patient = [],
      analysis_history = [?r]\<rparr>"
  have s: "db_schema ?db = Review" by simp
  have ix: "index_of status_options ''pending'' = Some 0" by (simp add: status_options_def)
  from update_review_unchecked [of ?db 500 1 "''approved''" "''looks fine''" "''pending''" 0 "Some ''bogus''"] s ix
  obtain db' where u: "update_analysis_status ?db 500 1 ''approved'' ''looks fine'' = Inr db'"
    and rows: "\<forall>i < length (analysis_history ?db).
              (a_id (analysis_history ?db ! i) = 1 \<longrightarrow>
                 analysis_history db' ! i =
                   (analysis_history ?db ! i)\<lparr>a_status := Some ''approved'',
                      a_doctor_notes := Some ''looks fine'', a_last_modified := Some 500\<rparr>)
              \<and> (a_id (analysis_history ?db ! i) \<noteq> 1 \<longrightarrow>
                   analysis_history db' ! i = analysis_history ?db ! i)"
    and sel: "selectbox status_options 0 (Some ''bogus'')
                \<in> {''pending'', ''approved'', ''disapproved''}"
    by blast
  from rows have "analysis_history db' ! 0 =
      ?r\<lparr>a_status := Some ''approved'', a_doctor_notes := Some ''looks fine'',
          a_last_modified := Some 500\<rparr>"
    by simp
  with u sel show ?thesis by simp
qed

text \<open>
  A status outside the three is written to the record, and an id that no record has
  is accepted without an error.
\<close>

theorem update_accepts_any_status:
  "update_analysis_status
     \<lparr>db_schema = Review, users = [], doctors = [], doctor_patient = [],
      analysis_history =
        [\<lparr>a_id = 1, a_user_id = 2, a_analysis_date = 100, a_medical_terms = ''fever'',
          a_summary = ''s'', a_recommendations = ''r'', a_doctor_id = None,
          a_status = Some ''pending'', a_doctor_notes = None, a_last_modified = None\<rparr>]\<rparr>
     500 1 ''bogus'' ''n''
   = Inr \<lparr>db_schema = Review, users = [], doctors = [], doctor_patient = [],
      analysis_history =
        [\<lparr>a_id = 1, a_user_id = 2, a_analysis_date = 100, a_medical_terms = ''fever'',
          a_summary = ''s'', a_recommendations = ''r'', a_doctor_id = None,
          a_status = Some ''bogus'', a_doctor_notes = Some ''n'',
          a_last_modified = Some 500\<rparr>]\<rparr>
   \<and> update_analysis_status
     \<lparr>db_schema = Review, users = [], doctors = [], doctor_patient = [],
      analysis_history =
        [\<lparr>a_id = 1, a_user_id = 2, a_analysis_date = 100, a_medical_terms = ''fever'',
          a_summary = ''s'', a_recommendations = ''r'', a_doctor_id = None,
          a_status = Some ''pending'', a_doctor_notes = None, a_last_modified = None\<rparr>]\<rparr>
     500 99 ''approved'' ''n''
   = Inr \<lparr>db_schema = Review, users = [], doctors = [], doctor_patient = [],
      analysis_history =
        [\<lparr>a_id = 1, a_user_id = 2, a_analysis_date = 100, a_medical_terms = ''fever'',
          a_summary = ''s'', a_recommendations = ''r'', a_doctor_id = None,
          a_status = Some ''pending'', a_doctor_notes = None, a_last_modified = None\<rparr>]\<rparr>"
  by (simp add: update_analysis_status_def)



section \<open>Properties of the doctor's dashboard\<close>






text \<open>
  As the module stands, the loop of the dashboard stops at the first record: the row
  has no item 4. So a run of \<^verbatim>\<open>doctor_interface\<close> leaves the database as it
  was.
\<close>

lemma review_loop_Cons:
  "review_loop inp now (analysis # history) db = (db, Raised IndexError)"
  by (simp add: item_beyond_def)

lemma review_loop_unchanged: "fst (review_loop inp now history db) = db"
  by (cases history) (simp_all add: item_beyond_def)

lemma doctor_interface_unchanged: "fst (doctor_interface db now user_id inp) = db"
  by (simp add: doctor_interface_def Let_def review_loop_unchanged
           split: sum.splits option.splits)




end
